theory Spec2Isabelle
  imports Main "HOL-Library.Char_ord" "HOL-Library.Sublist"
begin

section \<open>Regular expressions as used by the path validator\<close>

text \<open>
  The validator of \<^verbatim>\<open>microbi.js\<close> is written with two JavaScript regular expression
  literals. They use literal characters, a character class with the escapes
  \<^verbatim>\<open>\d\<close> and \<^verbatim>\<open>\w\<close>, alternation, concatenation, the star, and the anchors
  \<^verbatim>\<open>^\<close> and \<^verbatim>\<open>$\<close> at the two ends of a pattern. Neither literal carries a flag, so
  \<^verbatim>\<open>$\<close> is the end of the input, \<^verbatim>\<open>\w\<close> is the ASCII word class, and
  \<^verbatim>\<open>test\<close> has no state. Groups only capture, which \<^verbatim>\<open>test\<close> does not observe.
  A string is a list of code units; \<^typ>\<open>char\<close> has the 256 code units that a request
  target read from the wire can hold.
\<close>

datatype class_atom = ClassChar char | ClassDigit | ClassWord

datatype pattern =
    Literal char
  | CharClass "class_atom list"
  | Seq pattern pattern
  | Alt pattern pattern
  | Star pattern
  | Empty
  | Never

record regexp =
  anchored_start :: bool
  body :: pattern
  anchored_end :: bool

definition digit_chars :: string where
  "digit_chars = ''0123456789''"

definition word_chars :: string where
  "word_chars = ''abcdefghijklmnopqrstuvwxyzABCDEFGHIJKLMNOPQRSTUVWXYZ0123456789_''"

fun atom_matches :: "class_atom \<Rightarrow> char \<Rightarrow> bool" where
  "atom_matches (ClassChar x) c = (c = x)"
| "atom_matches ClassDigit c = (c \<in> set digit_chars)"
| "atom_matches ClassWord c = (c \<in> set word_chars)"

definition class_matches :: "class_atom list \<Rightarrow> char \<Rightarrow> bool" where
  "class_matches atoms c = list_ex (\<lambda>a. atom_matches a c) atoms"

fun nullable :: "pattern \<Rightarrow> bool" where
  "nullable (Literal x) = False"
| "nullable (CharClass atoms) = False"
| "nullable (Seq r s) = (nullable r \<and> nullable s)"
| "nullable (Alt r s) = (nullable r \<or> nullable s)"
| "nullable (Star r) = True"
| "nullable Empty = True"
| "nullable Never = False"

text \<open>What is left of a pattern once it has consumed the code unit \<open>c\<close>.\<close>

fun deriv :: "char \<Rightarrow> pattern \<Rightarrow> pattern" where
  "deriv c (Literal x) = (if c = x then Empty else Never)"
| "deriv c (CharClass atoms) = (if class_matches atoms c then Empty else Never)"
| "deriv c (Seq r s) =
     (if nullable r then Alt (Seq (deriv c r) s) (deriv c s) else Seq (deriv c r) s)"
| "deriv c (Alt r s) = Alt (deriv c r) (deriv c s)"
| "deriv c (Star r) = Seq (deriv c r) (Star r)"
| "deriv c Empty = Never"
| "deriv c Never = Never"

fun matches :: "pattern \<Rightarrow> string \<Rightarrow> bool" where
  "matches r [] = nullable r"
| "matches r (c # cs) = matches (deriv c r) cs"

text \<open>
  \<^verbatim>\<open>RegExp.prototype.test\<close>: some start index \<open>i\<close> and end index \<open>j\<close> delimit a piece of
  the input that the body matches. \<^verbatim>\<open>^\<close> allows only the start index 0 and
  \<^verbatim>\<open>$\<close> only the end index \<open>length s\<close>.
\<close>

definition test :: "regexp \<Rightarrow> string \<Rightarrow> bool" where
  "test rx s =
     list_ex
       (\<lambda>i. list_ex (\<lambda>j. matches (body rx) (take (j - i) (drop i s)))
              (if anchored_end rx then [length s] else [i..<Suc (length s)]))
       (if anchored_start rx then [0] else [0..<Suc (length s)])"

section \<open>The path validator\<close>

text \<open>\<^verbatim>\<open>var VALID_PATH_REGEX = /^[\./_\-\d\w]*$/\<close>\<close>

definition VALID_PATH_REGEX :: regexp where
  "VALID_PATH_REGEX =
     \<lparr>anchored_start = True,
      body = Star (CharClass [ClassChar CHR ''.'', ClassChar CHR ''/'', ClassChar CHR ''_'',
                              ClassChar CHR ''-'', ClassDigit, ClassWord]),
      anchored_end = True\<rparr>"

text \<open>\<^verbatim>\<open>var DISALLOWED_PATH_REGEX = /(\.\.)|(\/\.)/\<close>\<close>

definition DISALLOWED_PATH_REGEX :: regexp where
  "DISALLOWED_PATH_REGEX =
     \<lparr>anchored_start = False,
      body = Alt (Seq (Literal CHR ''.'') (Literal CHR ''.''))
                 (Seq (Literal CHR ''/'') (Literal CHR ''.'')),
      anchored_end = False\<rparr>"

definition validatePath :: "string \<Rightarrow> bool" where
  "validatePath path =
     (if test DISALLOWED_PATH_REGEX path then False else test VALID_PATH_REGEX path)"

subsection \<open>The words of the specification about paths\<close>

text \<open>
  The character kinds the specification names, by code unit range, independent of the
  way the regular expression lists them.
\<close>

definition between :: "char \<Rightarrow> char \<Rightarrow> char \<Rightarrow> bool" where
  "between lo hi c = (lo \<le> c \<and> c \<le> hi)"

definition is_letter :: "char \<Rightarrow> bool" where
  "is_letter c = (between CHR ''A'' CHR ''Z'' c \<or> between CHR ''a'' CHR ''z'' c)"

definition is_digit :: "char \<Rightarrow> bool" where
  "is_digit c = between CHR ''0'' CHR ''9'' c"

definition is_control :: "char \<Rightarrow> bool" where
  "is_control c = (of_char c < (32::nat) \<or> of_char c = (127::nat))"

definition allowed_char :: "char \<Rightarrow> bool" where
  "allowed_char c =
     (is_letter c \<or> is_digit c \<or> c = CHR ''.'' \<or> c = CHR ''-'' \<or> c = CHR ''_'' \<or> c = CHR ''/'')"

subsection \<open>The language of a pattern\<close>

text \<open>The set of strings a pattern denotes; the matcher above is shown to decide it.\<close>

inductive_set repeat :: "string set \<Rightarrow> string set" for L :: "string set" where
  repeat_nil: "[] \<in> repeat L"
| repeat_app: "u \<in> L \<Longrightarrow> v \<in> repeat L \<Longrightarrow> u @ v \<in> repeat L"

fun lang :: "pattern \<Rightarrow> string set" where
  "lang (Literal x) = {[x]}"
| "lang (CharClass atoms) = {[c] | c. class_matches atoms c}"
| "lang (Seq r s) = {u @ v | u v. u \<in> lang r \<and> v \<in> lang s}"
| "lang (Alt r s) = lang r \<union> lang s"
| "lang (Star r) = repeat (lang r)"
| "lang Empty = {[]}"
| "lang Never = {}"

section \<open>The router\<close>

text \<open>
  \<^verbatim>\<open>microbi.js\<close> requires \<^verbatim>\<open>./lib/router.js\<close> and calls its \<^verbatim>\<open>getRoutes\<close> and
  \<^verbatim>\<open>route\<close> on the \<^verbatim>\<open>api\<close> object. That file is not among the sources, so this
  section follows the specification of the route resolver.
\<close>

text \<open>
  Modelled from the spec: the handler registry that \<^verbatim>\<open>lib/router.js\<close> walks, a nested
  mapping from path segment to a nested mapping or, under the method name, to a handler.
\<close>

datatype 'h registry = Handler 'h | Object "string \<rightharpoonup> 'h registry"

text \<open>
  Modelled from the spec: the splitting inside \<^verbatim>\<open>getRoutes\<close> of \<^verbatim>\<open>lib/router.js\<close>.
  \<open>split_on\<close> cuts a string at every separator, as \<^verbatim>\<open>String.prototype.split\<close> does;
  \<open>trim_empty\<close> removes the empty segments at the two ends and keeps those inside.
\<close>

fun split_on :: "char \<Rightarrow> string \<Rightarrow> string list" where
  "split_on d [] = [[]]"
| "split_on d (c # cs) =
     (if c = d then [] # split_on d cs
      else (case split_on d cs of [] \<Rightarrow> [[c]] | s # ss \<Rightarrow> (c # s) # ss))"

definition trim_empty :: "string list \<Rightarrow> string list" where
  "trim_empty segs = rev (dropWhile (\<lambda>s. s = []) (rev (dropWhile (\<lambda>s. s = []) segs)))"

text \<open>
  Modelled from the spec: \<^verbatim>\<open>getRoutes\<close> of \<^verbatim>\<open>lib/router.js\<close>, which is not among the
  sources. The path is split on \<^verbatim>\<open>/\<close>; leading and trailing slashes give no empty
  segment at the ends, empty segments inside stay; the method is appended as the final
  segment.
\<close>

definition getRoutes :: "string \<Rightarrow> string \<Rightarrow> string list" where
  "getRoutes pathname method = trim_empty (split_on CHR ''/'' pathname) @ [method]"

text \<open>
  Modelled from the spec: \<^verbatim>\<open>route\<close> of \<^verbatim>\<open>lib/router.js\<close>, which is not among the
  sources. The registry is walked one segment at a time, each segment looked up as a key by
  string equality. A missing key, a handler met before the segments are used up, or a
  terminal value that is not a handler gives not-found.
\<close>

primrec route :: "string list \<Rightarrow> 'h registry \<Rightarrow> 'h option" where
  "route [] reg = (case reg of Handler h \<Rightarrow> Some h | Object m \<Rightarrow> None)"
| "route (seg # segs) reg =
     (case reg of
        Handler h \<Rightarrow> None
      | Object m \<Rightarrow> (case m seg of None \<Rightarrow> None | Some child \<Rightarrow> route segs child))"

text \<open>
  Modelled from the spec: the contract \<^verbatim>\<open>resolve(registry, path, method)\<close> of the route
  resolver, which is the two calls of \<^verbatim>\<open>lib/router.js\<close> that \<^verbatim>\<open>onRequest\<close> makes at
  lines 95 and 105.
\<close>

definition resolve :: "'h registry \<Rightarrow> string \<Rightarrow> string \<Rightarrow> 'h option" where
  "resolve reg pathname method = route (getRoutes pathname method) reg"

text \<open>
  Modelled from the spec: registering a handler at a sequence of segments, which the
  embedding application does when it builds the registry. It is the assignment
  \<^verbatim>\<open>api.a.b.GET = h\<close> that creates the objects missing on the way.
\<close>

primrec install :: "string list \<Rightarrow> 'h \<Rightarrow> 'h registry \<Rightarrow> 'h registry" where
  "install [] h reg = Handler h"
| "install (seg # segs) h reg =
     (case reg of
        Handler h' \<Rightarrow> Object [seg \<mapsto> install segs h (Object Map.empty)]
      | Object m \<Rightarrow>
          Object (m(seg \<mapsto> install segs h
                              (case m seg of None \<Rightarrow> Object Map.empty | Some child \<Rightarrow> child))))"

section \<open>The request dispatcher\<close>

subsection \<open>Requests, handlers, module state and collaborators\<close>

text \<open>The object \<^verbatim>\<open>url.parse(request.url, true)\<close> returns, as far as the code reads it.\<close>

record parsed_url =
  url_pathname :: string
  url_query :: "(string \<times> string) list"

text \<open>
  An api function: a JavaScript function that may carry the property \<^verbatim>\<open>stream\<close>. Called
  the buffered way it maps the url object and the message body to the response body.
\<close>

record api_function =
  stream :: bool
  call :: "parsed_url \<Rightarrow> string \<Rightarrow> string"

text \<open>What the request stream emits after the listeners are attached.\<close>

datatype stream_event = Data string | EndOfStream

record request =
  req_method :: string
  req_url :: string
  incoming :: "stream_event list"

text \<open>A file read stream: the chunks it delivers, then its end or an error.\<close>

datatype stream_close = Eof | ReadError

datatype read_stream = ReadStream "string list" stream_close

text \<open>The module variables \<^verbatim>\<open>api\<close>, \<^verbatim>\<open>apiContentType\<close> and \<^verbatim>\<open>staticServer\<close>.\<close>

record state =
  api :: "api_function registry option"
  apiContentType :: "string option"
  staticServer :: bool

text \<open>
  The modules of the platform the code calls: \<^verbatim>\<open>url.parse\<close>, the table of the
  \<^verbatim>\<open>mimemap\<close> package (a missing key reads as undefined), \<^verbatim>\<open>path.extname\<close> and
  \<^verbatim>\<open>fs.createReadStream\<close>. They are parameters of the model.
\<close>

record node =
  url_parse :: "string \<Rightarrow> parsed_url"
  mime :: "string \<rightharpoonup> string"
  extname :: "string \<Rightarrow> string"
  createReadStream :: "string \<Rightarrow> read_stream"

definition initial_state :: "node \<Rightarrow> state" where
  "initial_state nd = \<lparr>api = None, apiContentType = mime nd ''txt'', staticServer = True\<rparr>"

definition setApiContentType :: "node \<Rightarrow> string \<Rightarrow> state \<Rightarrow> state" where
  "setApiContentType nd ext st = st\<lparr>apiContentType := mime nd ext\<rparr>"

definition setApi :: "api_function registry \<Rightarrow> state \<Rightarrow> state" where
  "setApi apiOb st = st\<lparr>api := Some apiOb\<rparr>"

definition disableStaticServer :: "state \<Rightarrow> state" where
  "disableStaticServer st = st\<lparr>staticServer := False\<rparr>"

subsection \<open>Effects\<close>

text \<open>
  The dispatcher returns nothing; what it does is the sequence of calls it makes on the
  response, the request and the file system, in the order they happen, the callbacks
  included. \<open>Write\<close> is a chunk that \<^verbatim>\<open>pipe\<close> copies to the response.
\<close>

datatype event =
    WriteHead nat "(string \<times> string option) list"
  | EndResponse "string option"
  | CallStream api_function
  | SetEncoding string
  | CreateReadStream string
  | Pipe
  | Write string

definition respond404 :: "event list" where
  "respond404 = [WriteHead 404 [], EndResponse (Some ''404 Not found.'')]"

definition respond405 :: "event list" where
  "respond405 = [WriteHead 405 [], EndResponse (Some ''405 Method not allowed.'')]"

subsection \<open>\<^verbatim>\<open>onRequest\<close>\<close>

text \<open>
  Lines 121 to 133: the listeners of the buffered call. Each \<^verbatim>\<open>data\<close> event appends
  to \<^verbatim>\<open>requestBody\<close>; the \<^verbatim>\<open>end\<close> event writes the head and ends the response with
  what the api function returns. A stream that never ends gives no response.
\<close>

fun accumulate ::
  "string option \<Rightarrow> api_function \<Rightarrow> parsed_url \<Rightarrow> string \<Rightarrow> stream_event list \<Rightarrow> event list"
where
  "accumulate ct apiFunction reqUrl requestBody [] = []"
| "accumulate ct apiFunction reqUrl requestBody (Data d # evs) =
     accumulate ct apiFunction reqUrl (requestBody @ d) evs"
| "accumulate ct apiFunction reqUrl requestBody (EndOfStream # evs) =
     [WriteHead 200 [(''Content-Type'', ct)],
      EndResponse (Some (call apiFunction reqUrl requestBody))]"

text \<open>
  What the file stream does after \<^verbatim>\<open>pipe\<close>: the chunks reach the response, then the
  \<^verbatim>\<open>end\<close> listener ends the response, or the \<^verbatim>\<open>error\<close> listener calls
  \<^verbatim>\<open>respond404\<close>.
\<close>

fun piped :: "read_stream \<Rightarrow> event list" where
  "piped (ReadStream chunks Eof) = map Write chunks @ [EndResponse None]"
| "piped (ReadStream chunks ReadError) = map Write chunks @ respond404"

text \<open>Lines 152 to 168. \<^verbatim>\<open>replace('.', '')\<close> removes the first dot.\<close>

definition serveFile :: "node \<Rightarrow> string \<Rightarrow> event list" where
  "serveFile nd pathname =
     (let fileToServe = (if pathname = ''/'' then ''index.html'' else ''.'' @ pathname);
          ext = remove1 CHR ''.'' (extname nd fileToServe)
      in [CreateReadStream fileToServe, WriteHead 200 [(''Content-Type'', mime nd ext)], Pipe]
         @ piped (createReadStream nd fileToServe))"

text \<open>
  Lines 139 to 168, the part of \<^verbatim>\<open>onRequest\<close> after the api section. The statement
  \<^verbatim>\<open>if ( ! staticServer ) respond404( response )\<close> has no \<^verbatim>\<open>return\<close>: control goes
  on to the method check.
\<close>

definition staticFallback :: "state \<Rightarrow> node \<Rightarrow> string \<Rightarrow> string \<Rightarrow> event list" where
  "staticFallback st nd method pathname =
     (if \<not> staticServer st then respond404 else [])
     @ (if method \<noteq> ''GET'' then respond405 else serveFile nd pathname)"

text \<open>
  Lines 66 to 137 and the fall into the rest. The branch of the stream call has no
  \<^verbatim>\<open>return\<close>; the branch of the buffered call has one.
\<close>

definition onRequest :: "state \<Rightarrow> node \<Rightarrow> request \<Rightarrow> event list" where
  "onRequest st nd req =
     (let method = req_method req;
          reqUrl = url_parse nd (req_url req);
          pathname = url_pathname reqUrl
      in if \<not> validatePath pathname then respond404
         else (case api st of
                 None \<Rightarrow> staticFallback st nd method pathname
               | Some apiOb \<Rightarrow>
                   (case route (getRoutes pathname method) apiOb of
                      None \<Rightarrow> staticFallback st nd method pathname
                    | Some apiFunction \<Rightarrow>
                        if stream apiFunction
                        then CallStream apiFunction # staticFallback st nd method pathname
                        else SetEncoding ''utf8''
                             # accumulate (apiContentType st) apiFunction reqUrl [] (incoming req))))"

subsection \<open>A concrete platform for examples\<close>

text \<open>
  Stand-ins for the platform, used only to run the dispatcher on concrete requests: a
  request target is cut at the first \<^verbatim>\<open>?\<close>, the extension is the part of the last
  path portion from its last dot, and a file that is not in the table fails to open.
\<close>

definition parse_pair :: "string \<Rightarrow> string \<times> string" where
  "parse_pair kv = (takeWhile (\<lambda>c. c \<noteq> CHR ''='') kv, drop 1 (dropWhile (\<lambda>c. c \<noteq> CHR ''='') kv))"

definition parse_target :: "string \<Rightarrow> parsed_url" where
  "parse_target target =
     \<lparr>url_pathname = takeWhile (\<lambda>c. c \<noteq> CHR ''?'') target,
      url_query =
        (case dropWhile (\<lambda>c. c \<noteq> CHR ''?'') target of
           [] \<Rightarrow> []
         | q # search \<Rightarrow> map parse_pair (split_on CHR ''&'' search))\<rparr>"

definition extname_of :: "string \<Rightarrow> string" where
  "extname_of p =
     (let base = rev (takeWhile (\<lambda>c. c \<noteq> CHR ''/'') (rev p))
      in if CHR ''.'' \<in> set (drop 1 base)
         then CHR ''.'' # rev (takeWhile (\<lambda>c. c \<noteq> CHR ''.'') (rev base))
         else [])"

definition platform :: "(string \<rightharpoonup> string list) \<Rightarrow> node" where
  "platform files =
     \<lparr>url_parse = parse_target,
      mime = [''txt'' \<mapsto> ''text/plain'', ''html'' \<mapsto> ''text/html''],
      extname = extname_of,
      createReadStream =
        (\<lambda>f. case files f of None \<Rightarrow> ReadStream [] ReadError
                            | Some chunks \<Rightarrow> ReadStream chunks Eof)\<rparr>"

definition streamer :: api_function where
  "streamer = \<lparr>stream = True, call = (\<lambda>u b. [])\<rparr>"

definition echo :: api_function where
  "echo = \<lparr>stream = False, call = (\<lambda>u b. b)\<rparr>"

subsection \<open>Vocabulary for the statements\<close>

text \<open>
  The api function that the api section of \<^verbatim>\<open>onRequest\<close> finds for a path and a
  method: none when \<^verbatim>\<open>api\<close> is null or when \<^verbatim>\<open>route\<close> finds nothing.
\<close>

definition apiFunction_for :: "state \<Rightarrow> string \<Rightarrow> string \<Rightarrow> api_function option" where
  "apiFunction_for st pathname method =
     (case api st of None \<Rightarrow> None | Some apiOb \<Rightarrow> route (getRoutes pathname method) apiOb)"

text \<open>The events that only the two branches of an api call produce.\<close>

fun api_event :: "event \<Rightarrow> bool" where
  "api_event (CallStream f) = True"
| "api_event (SetEncoding enc) = True"
| "api_event e = False"

text \<open>The events of opening and streaming a file.\<close>

fun file_event :: "event \<Rightarrow> bool" where
  "file_event (CreateReadStream f) = True"
| "file_event Pipe = True"
| "file_event (Write chunk) = True"
| "file_event e = False"

section \<open>The matcher decides the language\<close>

lemma nullable_lang: "nullable r \<longleftrightarrow> [] \<in> lang r"
  by (induction r) (auto intro: repeat_nil)

lemma repeat_cons:
  "c # w \<in> repeat L \<longleftrightarrow> (\<exists>u v. c # u \<in> L \<and> v \<in> repeat L \<and> w = u @ v)"
proof
  assume "c # w \<in> repeat L"
  then show "\<exists>u v. c # u \<in> L \<and> v \<in> repeat L \<and> w = u @ v"
  proof (induction "c # w" rule: repeat.induct)
    case (repeat_app u v)
    show ?case
    proof (cases u)
      case Nil
      with repeat_app show ?thesis by simp
    next
      case (Cons a u')
      with repeat_app show ?thesis by auto
    qed
  qed
next
  assume "\<exists>u v. c # u \<in> L \<and> v \<in> repeat L \<and> w = u @ v"
  then obtain u v where "c # u \<in> L" "v \<in> repeat L" "w = u @ v" by blast
  then show "c # w \<in> repeat L"
    using repeat_app [of "c # u" L v] by simp
qed

lemma lang_deriv: "w \<in> lang (deriv c r) \<longleftrightarrow> c # w \<in> lang r"
proof (induction r arbitrary: w)
  case (Seq r s)
  show ?case
  proof (cases "nullable r")
    case True
    then show ?thesis
      using Seq by (auto simp: nullable_lang Cons_eq_append_conv)
  next
    case False
    then show ?thesis
      using Seq by (auto simp: nullable_lang Cons_eq_append_conv)
  qed
next
  case (Star r)
  then show ?case by (auto simp: repeat_cons)
qed auto

lemma matches_lang: "matches r w \<longleftrightarrow> w \<in> lang r"
  by (induction w arbitrary: r) (simp_all add: nullable_lang lang_deriv)

lemma repeat_class: "w \<in> repeat {[c] | c. P c} \<longleftrightarrow> (\<forall>c \<in> set w. P c)"
proof
  assume "w \<in> repeat {[c] | c. P c}"
  then show "\<forall>c \<in> set w. P c"
    by (induction rule: repeat.induct) auto
next
  assume "\<forall>c \<in> set w. P c"
  then show "w \<in> repeat {[c] | c. P c}"
  proof (induction w)
    case Nil
    show ?case by (rule repeat_nil)
  next
    case (Cons a w)
    then have "[a] \<in> {[c] | c. P c}" and "w \<in> repeat {[c] | c. P c}" by auto
    then show ?case using repeat_app [of "[a]" _ w] by simp
  qed
qed

lemma test_anchored:
  "anchored_start rx \<Longrightarrow> anchored_end rx \<Longrightarrow> test rx s \<longleftrightarrow> s \<in> lang (body rx)"
  by (simp add: test_def matches_lang)

lemma piece_iff:
  "(\<exists>i \<le> length s. \<exists>j. i \<le> j \<and> j \<le> length s \<and> take (j - i) (drop i s) \<in> L)
     \<longleftrightarrow> (\<exists>xs w ys. s = xs @ w @ ys \<and> w \<in> L)"
proof
  assume "\<exists>i \<le> length s. \<exists>j. i \<le> j \<and> j \<le> length s \<and> take (j - i) (drop i s) \<in> L"
  then obtain i j where "take (j - i) (drop i s) \<in> L" by blast
  moreover have "s = take i s @ take (j - i) (drop i s) @ drop (j - i) (drop i s)"
    by (simp only: append_take_drop_id)
  ultimately show "\<exists>xs w ys. s = xs @ w @ ys \<and> w \<in> L" by blast
next
  assume "\<exists>xs w ys. s = xs @ w @ ys \<and> w \<in> L"
  then obtain xs w ys where s: "s = xs @ w @ ys" and w: "w \<in> L" by blast
  have "take ((length xs + length w) - length xs) (drop (length xs) s) = w"
    using s by simp
  with w s show "\<exists>i \<le> length s. \<exists>j. i \<le> j \<and> j \<le> length s \<and> take (j - i) (drop i s) \<in> L"
    by (intro exI [of _ "length xs"] conjI exI [of _ "length xs + length w"]) simp_all
qed

lemma list_ex_upt: "list_ex P [a..<Suc n] \<longleftrightarrow> (\<exists>i. a \<le> i \<and> i \<le> n \<and> P i)"
  unfolding list_ex_iff by (auto simp: less_Suc_eq_le simp del: upt_Suc)

lemma test_search:
  assumes "\<not> anchored_start rx" "\<not> anchored_end rx"
  shows "test rx s \<longleftrightarrow> (\<exists>xs w ys. s = xs @ w @ ys \<and> w \<in> lang (body rx))"
proof -
  have "test rx s \<longleftrightarrow>
    (\<exists>i \<le> length s. \<exists>j. i \<le> j \<and> j \<le> length s \<and> take (j - i) (drop i s) \<in> lang (body rx))"
    using assms unfolding test_def by (simp only: list_ex_upt matches_lang if_False) auto
  then show ?thesis by (simp only: piece_iff)
qed

section \<open>What the validator accepts\<close>

lemma digit_class: "c \<in> set digit_chars \<longleftrightarrow> is_digit c"
  by (cases c) (simp add: digit_chars_def is_digit_def between_def less_eq_char_def)

lemma word_class: "c \<in> set word_chars \<longleftrightarrow> is_letter c \<or> is_digit c \<or> c = CHR ''_''"
  by (cases c) (simp add: word_chars_def is_digit_def is_letter_def between_def less_eq_char_def)

lemma valid_regex_iff: "test VALID_PATH_REGEX p \<longleftrightarrow> (\<forall>c \<in> set p. allowed_char c)"
proof -
  have "test VALID_PATH_REGEX p \<longleftrightarrow> p \<in> lang (body VALID_PATH_REGEX)"
    by (rule test_anchored) (simp_all add: VALID_PATH_REGEX_def)
  also have "\<dots> \<longleftrightarrow>
      (\<forall>c \<in> set p. class_matches [ClassChar CHR ''.'', ClassChar CHR ''/'', ClassChar CHR ''_'',
                                     ClassChar CHR ''-'', ClassDigit, ClassWord] c)"
    by (simp add: VALID_PATH_REGEX_def repeat_class)
  also have "\<dots> \<longleftrightarrow> (\<forall>c \<in> set p. allowed_char c)"
    by (auto simp: class_matches_def allowed_char_def digit_class word_class)
  finally show ?thesis .
qed

lemma disallowed_lang: "lang (body DISALLOWED_PATH_REGEX) = {''..'', ''/.''}"
  by (auto simp: DISALLOWED_PATH_REGEX_def)

lemma disallowed_regex_iff:
  "test DISALLOWED_PATH_REGEX p \<longleftrightarrow> sublist ''..'' p \<or> sublist ''/.'' p"
proof -
  have "test DISALLOWED_PATH_REGEX p \<longleftrightarrow>
      (\<exists>xs w ys. p = xs @ w @ ys \<and> w \<in> lang (body DISALLOWED_PATH_REGEX))"
    by (rule test_search) (simp_all add: DISALLOWED_PATH_REGEX_def)
  also have "\<dots> \<longleftrightarrow> sublist ''..'' p \<or> sublist ''/.'' p"
    unfolding disallowed_lang sublist_def by blast
  finally show ?thesis .
qed

lemma validatePath_allowed:
  "validatePath p \<longleftrightarrow>
     \<not> sublist ''..'' p \<and> \<not> sublist ''/.'' p \<and> (\<forall>c \<in> set p. allowed_char c)"
  by (simp add: validatePath_def disallowed_regex_iff valid_regex_iff)

lemma not_allowed_char:
  assumes "c = CHR '' '' \<or> c = CHR ''?'' \<or> c = CHR ''%'' \<or> c = CHR ''<'' \<or> is_control c"
  shows "\<not> allowed_char c"
proof -
  have "\<not> allowed_char CHR '' ''" "\<not> allowed_char CHR ''?''" "\<not> allowed_char CHR ''%''"
    "\<not> allowed_char CHR ''<''"
    by (simp_all add: allowed_char_def is_letter_def is_digit_def between_def less_eq_char_def)
  moreover have "\<not> allowed_char c" if "is_control c"
  proof
    assume "allowed_char c"
    then have "(45::nat) \<le> of_char c \<and> of_char c \<le> (122::nat)"
      by (auto simp: allowed_char_def is_letter_def is_digit_def between_def less_eq_char_def)
    with that show False by (simp add: is_control_def)
  qed
  ultimately show ?thesis using assms by blast
qed

text \<open>
  C3. For every string \<open>p\<close>, \<open>validatePath p\<close> is true exactly when \<open>p\<close> has no
  occurrence of \<^verbatim>\<open>..\<close>, no occurrence of \<^verbatim>\<open>/.\<close>, and each of its characters is a
  letter, a digit, a dot, a hyphen, an underscore or a forward slash. In particular a
  string that holds a space, \<^verbatim>\<open>?\<close>, \<^verbatim>\<open>%\<close>, \<^verbatim>\<open><\<close> or a control character is rejected.
\<close>

theorem validatePath_iff:
  "(validatePath p \<longleftrightarrow>
      \<not> sublist ''..'' p \<and> \<not> sublist ''/.'' p \<and>
      (\<forall>c \<in> set p. is_letter c \<or> is_digit c \<or> c = CHR ''.'' \<or> c = CHR ''-'' \<or>
                     c = CHR ''_'' \<or> c = CHR ''/''))
   \<and> ((\<exists>c \<in> set p. c = CHR '' '' \<or> c = CHR ''?'' \<or> c = CHR ''%'' \<or> c = CHR ''<'' \<or>
                     is_control c) \<longrightarrow> \<not> validatePath p)"
  using validatePath_allowed [of p] not_allowed_char unfolding allowed_char_def by blast

theorem validatePath_iff_witness:
  "validatePath ''/stuff/items-1_a.txt'' \<and> \<not> validatePath ''/a/../b'' \<and>
   \<not> validatePath ''/a/.git'' \<and> \<not> validatePath ''/a b'' \<and> \<not> validatePath ''/a?x=1''
   \<and> \<not> validatePath ''/a%2e'' \<and> \<not> validatePath ''/<a'' \<and> \<not> validatePath [CHR ''a'', CHR 0x0A]"
  using validatePath_iff [of "''/stuff/items-1_a.txt''"] validatePath_iff [of "''/a/../b''"]
    validatePath_iff [of "''/a/.git''"] validatePath_iff [of "''/a b''"]
    validatePath_iff [of "''/a?x=1''"] validatePath_iff [of "''/a%2e''"]
    validatePath_iff [of "''/<a''"] validatePath_iff [of "[CHR ''a'', CHR 0x0A]"]
  by (simp add: sublist_Cons_right is_letter_def is_digit_def is_control_def between_def less_eq_char_def)

text \<open>
  C10. \<open>validatePath\<close> applied to the empty string returns true: the disallowed pattern
  finds nothing in it and the starred class matches it with no repetition.
\<close>

theorem validatePath_empty: "validatePath []"
  by (simp add: validatePath_def test_def VALID_PATH_REGEX_def DISALLOWED_PATH_REGEX_def)

section \<open>Route resolution\<close>


lemma route_empty_Object: "route segs (Object Map.empty) = None"
  by (cases segs) simp_all




lemma resolve_empty_Object: "resolve (Object Map.empty) p m = None"
  by (simp add: resolve_def route_empty_Object)

text \<open>
  The splitting rule of the route resolver drops the empty segment that a trailing slash
  of the path gives, before any matching takes place: a path and the same path followed by
  a slash have the same segments. Exact matching, below, is about segments and keys.
\<close>

lemma split_on_not_Nil: "split_on d p \<noteq> []"
  by (induction p) (simp_all split: list.splits)

lemma split_on_snoc: "split_on d (p @ [d]) = split_on d p @ [[]]"
proof (induction p)
  case Nil
  show ?case by simp
next
  case (Cons c cs)
  obtain s ss where "split_on d cs = s # ss"
    using split_on_not_Nil [of d cs] by (cases "split_on d cs") auto
  with Cons show ?case by simp
qed

lemma trim_empty_snoc: "trim_empty (segs @ [[]]) = trim_empty segs"
proof (cases "\<forall>s \<in> set segs. s = []")
  case True
  then have "dropWhile (\<lambda>s. s = []) segs = []"
    and "dropWhile (\<lambda>s. s = []) (segs @ [[]]) = []"
    by simp_all
  then show ?thesis by (simp only: trim_empty_def rev.simps)
next
  case False
  then have "dropWhile (\<lambda>s. s = []) (segs @ [[]]) = dropWhile (\<lambda>s. s = []) segs @ [[]]"
    by (auto simp: dropWhile_append)
  then show ?thesis by (simp add: trim_empty_def)
qed

lemma getRoutes_slash: "getRoutes (p @ ''/'') m = getRoutes p m"
  by (simp add: getRoutes_def split_on_snoc trim_empty_snoc)








section \<open>The dispatcher, branch by branch\<close>

lemma onRequest_invalid:
  "\<not> validatePath (url_pathname (url_parse nd (req_url req))) \<Longrightarrow> onRequest st nd req = respond404"
  by (simp add: onRequest_def)

lemma onRequest_no_match:
  assumes "validatePath (url_pathname (url_parse nd (req_url req)))"
    and "apiFunction_for st (url_pathname (url_parse nd (req_url req))) (req_method req) = None"
  shows "onRequest st nd req =
    staticFallback st nd (req_method req) (url_pathname (url_parse nd (req_url req)))"
  using assms by (simp add: onRequest_def apiFunction_for_def split: option.splits)

lemma onRequest_stream:
  assumes "validatePath (url_pathname (url_parse nd (req_url req)))"
    and "apiFunction_for st (url_pathname (url_parse nd (req_url req))) (req_method req) = Some f"
    and "stream f"
  shows "onRequest st nd req =
    CallStream f # staticFallback st nd (req_method req) (url_pathname (url_parse nd (req_url req)))"
  using assms by (simp add: onRequest_def apiFunction_for_def split: option.splits)

lemma onRequest_buffered:
  assumes "validatePath (url_pathname (url_parse nd (req_url req)))"
    and "apiFunction_for st (url_pathname (url_parse nd (req_url req))) (req_method req) = Some f"
    and "\<not> stream f"
  shows "onRequest st nd req =
    SetEncoding ''utf8''
    # accumulate (apiContentType st) f (url_parse nd (req_url req)) [] (incoming req)"
  using assms by (simp add: onRequest_def apiFunction_for_def split: option.splits)

lemma accumulate_ended:
  "accumulate ct f u acc (map Data chunks @ EndOfStream # rest) =
     [WriteHead 200 [(''Content-Type'', ct)], EndResponse (Some (call f u (acc @ concat chunks)))]"
  by (induction chunks arbitrary: acc) simp_all

lemma accumulate_open: "accumulate ct f u acc (map Data chunks) = []"
  by (induction chunks arbitrary: acc) simp_all

lemma staticFallback_not_respond404: "staticFallback st nd m p \<noteq> respond404"
  by (simp add: staticFallback_def respond404_def respond405_def serveFile_def Let_def)

lemma staticFallback_no_api_event: "\<not> list_ex api_event (staticFallback st nd m p)"
proof -
  have "\<not> list_ex api_event (piped rs)" for rs
    by (cases rs rule: piped.cases) (simp_all add: respond404_def list_ex_iff)
  then show ?thesis
    by (simp add: staticFallback_def respond404_def respond405_def serveFile_def Let_def)
qed

lemma valid_examples:
  "validatePath ''/echo''" "validatePath ''/up''" "validatePath ''/x''" "validatePath ''/a''"
  "validatePath ''/missing.txt''" "\<not> validatePath ''/a/../b''"
  by (simp_all add: validatePath_allowed sublist_Cons_right allowed_char_def is_letter_def
      is_digit_def between_def less_eq_char_def)

lemma getRoutes_examples:
  "getRoutes ''/echo'' m = [''echo'', m]" "getRoutes ''/up'' m = [''up'', m]"
  "getRoutes ''/x'' m = [''x'', m]" "getRoutes ''/a'' m = [''a'', m]"
  "getRoutes ''/missing.txt'' m = [''missing.txt'', m]"
  by (simp_all add: getRoutes_def trim_empty_def)

text \<open>
  C5. For every request routed to a buffered handler, the chunks of the request body are
  concatenated in arrival order and, once the stream has ended, the response is: status
  200 with the configured api content type, then the value the handler returns for the
  parsed url object and the full body, which also closes the response. Before the end of
  the stream nothing is written. An echo handler sent \<^verbatim>\<open>hello\<close> answers 200 with the
  configured content type and the body \<^verbatim>\<open>hello\<close>.
\<close>

theorem onRequest_buffered_response:
  assumes "validatePath (url_pathname (url_parse nd (req_url req)))"
    and "apiFunction_for st (url_pathname (url_parse nd (req_url req))) (req_method req) = Some f"
    and "\<not> stream f"
  shows "(incoming req = map Data chunks @ EndOfStream # rest \<longrightarrow>
            onRequest st nd req =
              [SetEncoding ''utf8'',
               WriteHead 200 [(''Content-Type'', apiContentType st)],
               EndResponse (Some (call f (url_parse nd (req_url req)) (concat chunks)))])
       \<and> (incoming req = map Data chunks \<longrightarrow> onRequest st nd req = [SetEncoding ''utf8''])"
  using onRequest_buffered [OF assms] by (simp add: accumulate_ended accumulate_open)

theorem onRequest_buffered_response_witness:
  "onRequest (setApiContentType (platform Map.empty) ''html''
               (setApi (install [''echo'', ''POST''] echo (Object Map.empty))
                  (initial_state (platform Map.empty))))
     (platform Map.empty)
     \<lparr>req_method = ''POST'', req_url = ''/echo?a=1'',
      incoming = [Data ''he'', Data ''llo'', EndOfStream]\<rparr>
   = [SetEncoding ''utf8'', WriteHead 200 [(''Content-Type'', Some ''text/html'')],
      EndResponse (Some ''hello'')]
   \<and> onRequest (setApiContentType (platform Map.empty) ''html''
               (setApi (install [''echo'', ''POST''] echo (Object Map.empty))
                  (initial_state (platform Map.empty))))
     (platform Map.empty)
     \<lparr>req_method = ''POST'', req_url = ''/echo?a=1'', incoming = [Data ''he'', Data ''llo'']\<rparr>
   = [SetEncoding ''utf8'']"
  using
    onRequest_buffered_response [of "platform Map.empty"
      "\<lparr>req_method = ''POST'', req_url = ''/echo?a=1'',
        incoming = [Data ''he'', Data ''llo'', EndOfStream]\<rparr>"
      "setApiContentType (platform Map.empty) ''html''
         (setApi (install [''echo'', ''POST''] echo (Object Map.empty))
            (initial_state (platform Map.empty)))"
      echo "[''he'', ''llo'']" "[]"]
    onRequest_buffered_response [of "platform Map.empty"
      "\<lparr>req_method = ''POST'', req_url = ''/echo?a=1'', incoming = [Data ''he'', Data ''llo'']\<rparr>"
      "setApiContentType (platform Map.empty) ''html''
         (setApi (install [''echo'', ''POST''] echo (Object Map.empty))
            (initial_state (platform Map.empty)))"
      echo "[''he'', ''llo'']" "[]"]
  by (simp add: platform_def parse_target_def valid_examples getRoutes_examples
      apiFunction_for_def setApi_def setApiContentType_def initial_state_def echo_def)

text \<open>
  C8. For every request with a valid path, a method other than \<^verbatim>\<open>GET\<close>, no matching api
  handler and static serving enabled, the dispatcher responds with status 405 and the body
  \<^verbatim>\<open>405 Method not allowed.\<close> and does nothing more: no file is opened or streamed.
\<close>

theorem onRequest_405:
  assumes "validatePath (url_pathname (url_parse nd (req_url req)))"
    and "req_method req \<noteq> ''GET''"
    and "apiFunction_for st (url_pathname (url_parse nd (req_url req))) (req_method req) = None"
    and "staticServer st"
  shows "onRequest st nd req = [WriteHead 405 [], EndResponse (Some ''405 Method not allowed.'')]
       \<and> \<not> list_ex file_event (onRequest st nd req)"
  using assms onRequest_no_match [OF assms(1) assms(3)]
  by (simp add: staticFallback_def respond405_def)

theorem onRequest_405_witness:
  "onRequest (initial_state (platform Map.empty)) (platform Map.empty)
     \<lparr>req_method = ''POST'', req_url = ''/x'', incoming = [EndOfStream]\<rparr>
   = [WriteHead 405 [], EndResponse (Some ''405 Method not allowed.'')]
   \<and> onRequest (setApi (install [''x'', ''GET''] echo (Object Map.empty))
                 (initial_state (platform Map.empty))) (platform Map.empty)
     \<lparr>req_method = ''DELETE'', req_url = ''/x'', incoming = [EndOfStream]\<rparr>
   = [WriteHead 405 [], EndResponse (Some ''405 Method not allowed.'')]"
  using
    onRequest_405 [of "platform Map.empty"
      "\<lparr>req_method = ''POST'', req_url = ''/x'', incoming = [EndOfStream]\<rparr>"
      "initial_state (platform Map.empty)"]
    onRequest_405 [of "platform Map.empty"
      "\<lparr>req_method = ''DELETE'', req_url = ''/x'', incoming = [EndOfStream]\<rparr>"
      "setApi (install [''x'', ''GET''] echo (Object Map.empty))
         (initial_state (platform Map.empty))"]
  by (simp add: platform_def parse_target_def valid_examples getRoutes_examples
      apiFunction_for_def setApi_def initial_state_def)

text \<open>
  C7, as amended. When the installed registry is null, no request is routed to an api
  handler, whatever its path and method: no event of an api call occurs, and every request
  that has passed path validation is handled by the static fallback alone, which applies
  its own gating.
\<close>

theorem onRequest_no_registry:
  assumes "api st = None"
  shows "\<not> list_ex api_event (onRequest st nd req)
       \<and> (validatePath (url_pathname (url_parse nd (req_url req))) \<longrightarrow>
            onRequest st nd req =
              staticFallback st nd (req_method req) (url_pathname (url_parse nd (req_url req))))"
proof (cases "validatePath (url_pathname (url_parse nd (req_url req)))")
  case True
  moreover have "apiFunction_for st p m = None" for p m
    using assms by (simp add: apiFunction_for_def)
  ultimately have "onRequest st nd req =
      staticFallback st nd (req_method req) (url_pathname (url_parse nd (req_url req)))"
    by (rule onRequest_no_match)
  then show ?thesis by (simp add: staticFallback_no_api_event)
next
  case False
  then show ?thesis by (simp add: onRequest_invalid respond404_def)
qed

theorem onRequest_no_registry_witness:
  "api (initial_state (platform Map.empty)) = None
   \<and> onRequest (initial_state (platform Map.empty)) (platform Map.empty)
       \<lparr>req_method = ''POST'', req_url = ''/x'', incoming = [EndOfStream]\<rparr>
     = staticFallback (initial_state (platform Map.empty)) (platform Map.empty) ''POST'' ''/x''
   \<and> \<not> list_ex api_event
         (onRequest (initial_state (platform Map.empty)) (platform Map.empty)
            \<lparr>req_method = ''GET'', req_url = ''/missing.txt'', incoming = [EndOfStream]\<rparr>)"
proof -
  let ?nd = "platform Map.empty"
  let ?st = "initial_state ?nd"
  let ?post = "\<lparr>req_method = ''POST'', req_url = ''/x'', incoming = [EndOfStream]\<rparr>"
  let ?get = "\<lparr>req_method = ''GET'', req_url = ''/missing.txt'', incoming = [EndOfStream]\<rparr>"
  have none: "api ?st = None"
    by (simp add: initial_state_def)
  have path: "url_pathname (url_parse ?nd (req_url ?post)) = ''/x''"
    by (simp add: platform_def parse_target_def)
  have "onRequest ?st ?nd ?post = staticFallback ?st ?nd ''POST'' ''/x''"
    using onRequest_no_registry [OF none, of ?nd ?post] unfolding path
    by (simp add: valid_examples)
  moreover have "\<not> list_ex api_event (onRequest ?st ?nd ?get)"
    using onRequest_no_registry [OF none, of ?nd ?get] by (rule conjunct1)
  ultimately show ?thesis using none by (intro conjI)
qed

text \<open>
  C7, as stated, speaks of every request. A request whose path fails validation is
  answered with 404 before the api section and does not reach the static fallback, which
  would have opened a file for it.
\<close>

theorem no_registry_invalid_path:
  "api (initial_state (platform Map.empty)) = None \<and>
   onRequest (initial_state (platform Map.empty)) (platform Map.empty)
     \<lparr>req_method = ''GET'', req_url = ''/a/../b'', incoming = [EndOfStream]\<rparr>
   = [WriteHead 404 [], EndResponse (Some ''404 Not found.'')] \<and>
   staticFallback (initial_state (platform Map.empty)) (platform Map.empty) ''GET'' ''/a/../b''
   = [CreateReadStream ''./a/../b'', WriteHead 200 [(''Content-Type'', None)], Pipe,
      WriteHead 404 [], EndResponse (Some ''404 Not found.'')]"
  by (simp add: onRequest_def platform_def parse_target_def valid_examples initial_state_def
      staticFallback_def respond404_def serveFile_def extname_of_def)

lemma onRequest_respond404_iff:
  "onRequest st nd req = respond404 \<longleftrightarrow> \<not> validatePath (url_pathname (url_parse nd (req_url req)))"
proof (cases "validatePath (url_pathname (url_parse nd (req_url req)))")
  case False
  then show ?thesis by (simp add: onRequest_invalid)
next
  case True
  have "onRequest st nd req \<noteq> respond404"
  proof (cases "apiFunction_for st (url_pathname (url_parse nd (req_url req))) (req_method req)")
    case None
    with True show ?thesis by (simp add: onRequest_no_match staticFallback_not_respond404)
  next
    case (Some f)
    with True show ?thesis
      by (cases "stream f") (simp_all add: onRequest_stream onRequest_buffered respond404_def)
  qed
  with True show ?thesis by simp
qed

text \<open>
  C9. Path validation depends only on the pathname of the parsed request url: the
  dispatcher answers with the 404 of the validation stage exactly when the pathname is
  invalid, so two requests with the same pathname are both rejected there or both let
  through, whatever their query strings hold.
\<close>

theorem validation_by_pathname:
  "(onRequest st nd r = respond404 \<longleftrightarrow> \<not> validatePath (url_pathname (url_parse nd (req_url r))))
   \<and> (url_pathname (url_parse nd (req_url r1)) = url_pathname (url_parse nd (req_url r2)) \<longrightarrow>
        (onRequest st nd r1 = respond404 \<longleftrightarrow> onRequest st nd r2 = respond404))"
  by (simp add: onRequest_respond404_iff)

theorem validation_by_pathname_witness:
  "url_pathname (parse_target ''/a?x=..&y=%3C'') = url_pathname (parse_target ''/a'')
   \<and> onRequest (initial_state (platform Map.empty)) (platform Map.empty)
       \<lparr>req_method = ''GET'', req_url = ''/a?x=..&y=%3C'', incoming = [EndOfStream]\<rparr>
     \<noteq> respond404
   \<and> onRequest (initial_state (platform Map.empty)) (platform Map.empty)
       \<lparr>req_method = ''GET'', req_url = ''/a/../b'', incoming = [EndOfStream]\<rparr>
     = respond404"
proof -
  let ?nd = "platform Map.empty"
  let ?st = "initial_state ?nd"
  let ?plain = "\<lparr>req_method = ''GET'', req_url = ''/a'', incoming = [EndOfStream]\<rparr>"
  let ?query = "\<lparr>req_method = ''GET'', req_url = ''/a?x=..&y=%3C'', incoming = [EndOfStream]\<rparr>"
  let ?dots = "\<lparr>req_method = ''GET'', req_url = ''/a/../b'', incoming = [EndOfStream]\<rparr>"
  have same: "url_pathname (parse_target ''/a?x=..&y=%3C'') = url_pathname (parse_target ''/a'')"
    by (simp add: parse_target_def)
  then have same': "url_pathname (url_parse ?nd (req_url ?query))
      = url_pathname (url_parse ?nd (req_url ?plain))"
    by (simp add: platform_def)
  have plain: "url_pathname (url_parse ?nd (req_url ?plain)) = ''/a''"
    and dots: "url_pathname (url_parse ?nd (req_url ?dots)) = ''/a/../b''"
    by (simp_all add: platform_def parse_target_def)
  have "onRequest ?st ?nd ?plain \<noteq> respond404"
    using validation_by_pathname [of ?st ?nd ?plain] unfolding plain
    by (simp add: valid_examples)
  with same' have "onRequest ?st ?nd ?query \<noteq> respond404"
    using validation_by_pathname [of ?st ?nd ?plain ?query ?plain] by blast
  moreover have "onRequest ?st ?nd ?dots = respond404"
    using validation_by_pathname [of ?st ?nd ?dots] unfolding dots
    by (simp add: valid_examples)
  ultimately show ?thesis using same by (intro conjI)
qed

section \<open>Where the dispatcher goes on after it should have stopped\<close>

text \<open>
  C1. A request that resolves to an api handler must not reach the static fallback. For a
  stream handler the code calls the handler and then executes the static fallback on the
  same response: a \<^verbatim>\<open>POST\<close> gets the 405 of the static server written after the
  handler was called, a \<^verbatim>\<open>GET\<close> gets a file opened and streamed.
\<close>

theorem stream_call_falls_into_static:
  "onRequest (setApi (install [''up'', ''POST''] streamer (Object Map.empty))
               (initial_state (platform Map.empty)))
     (platform Map.empty)
     \<lparr>req_method = ''POST'', req_url = ''/up'', incoming = [Data ''x'', EndOfStream]\<rparr>
   = [CallStream streamer, WriteHead 405 [], EndResponse (Some ''405 Method not allowed.'')]
   \<and> onRequest (setApi (install [''up'', ''GET''] streamer (Object Map.empty))
               (initial_state (platform Map.empty)))
     (platform Map.empty)
     \<lparr>req_method = ''GET'', req_url = ''/up'', incoming = [EndOfStream]\<rparr>
   = [CallStream streamer, CreateReadStream ''./up'', WriteHead 200 [(''Content-Type'', None)],
      Pipe, WriteHead 404 [], EndResponse (Some ''404 Not found.'')]"
  by (simp add: onRequest_def platform_def parse_target_def valid_examples getRoutes_examples
      setApi_def initial_state_def streamer_def staticFallback_def respond405_def respond404_def
      serveFile_def extname_of_def)

text \<open>
  C2. With static serving disabled, a valid request that matches no api handler must get
  the 404 and nothing else. The code writes the 404 and goes on: a \<^verbatim>\<open>POST\<close> gets a
  405 written as well, and for a \<^verbatim>\<open>GET\<close> the file is opened and streamed.
\<close>

theorem static_disabled_continues:
  "onRequest (disableStaticServer (initial_state (platform Map.empty))) (platform Map.empty)
     \<lparr>req_method = ''POST'', req_url = ''/x'', incoming = [EndOfStream]\<rparr>
   = [WriteHead 404 [], EndResponse (Some ''404 Not found.''),
      WriteHead 405 [], EndResponse (Some ''405 Method not allowed.'')]
   \<and> onRequest (disableStaticServer (initial_state (platform Map.empty))) (platform Map.empty)
     \<lparr>req_method = ''GET'', req_url = ''/x'', incoming = [EndOfStream]\<rparr>
   = [WriteHead 404 [], EndResponse (Some ''404 Not found.''),
      CreateReadStream ''./x'', WriteHead 200 [(''Content-Type'', None)], Pipe,
      WriteHead 404 [], EndResponse (Some ''404 Not found.'')]"
  by (simp add: onRequest_def platform_def parse_target_def valid_examples
      disableStaticServer_def initial_state_def staticFallback_def respond405_def respond404_def
      serveFile_def extname_of_def)

text \<open>
  C4. When the file of a static \<^verbatim>\<open>GET\<close> cannot be opened, the response must be a 404
  and no status 200 may be sent. The code writes the head with status 200 before the
  stream reports the failure, and the 404 after it.
\<close>

theorem missing_file_writes_200_first:
  "onRequest (initial_state (platform Map.empty)) (platform Map.empty)
     \<lparr>req_method = ''GET'', req_url = ''/missing.txt'', incoming = [EndOfStream]\<rparr>
   = [CreateReadStream ''./missing.txt'', WriteHead 200 [(''Content-Type'', Some ''text/plain'')],
      Pipe, WriteHead 404 [], EndResponse (Some ''404 Not found.'')]"
  by (simp add: onRequest_def platform_def parse_target_def valid_examples
      initial_state_def staticFallback_def respond404_def serveFile_def extname_of_def)


end
